theory Spec2Isabelle
  imports Complex_Main
begin

section \<open>Data model of the DQN agent (dqn.py)\<close>

text \<open>
  Python exceptions are values. A method of the agent mutates \<open>self\<close> and may raise
  half-way: its model returns the agent as it is when the method returns
  (\<open>Returned\<close>) or as it is at the moment of the raise (\<open>Raised\<close>), so that what an
  aborted call leaves behind can be stated.
\<close>

datatype py_error = TypeError | ValueError | IndexError | AttributeError | OSError

datatype 's outcome = Returned 's | Raised py_error 's

datatype mode_t = TRAIN | RUN

text \<open>
  A game frame is a 2-D numpy array: its shape and its rows. A frame stack is the 4-D
  array of shape \<open>(1, st_height, st_width, st_depth)\<close>; \<open>st_rows ! h ! w\<close> is the vector
  along the last axis (index 0 is the newest frame). Numbers held in arrays and in
  epsilon, reward, gamma and loss are modelled as reals.
\<close>

record frame =
  height :: nat
  width :: nat
  rows :: "real list list"

record stack =
  st_height :: nat
  st_width :: nat
  st_depth :: nat
  st_rows :: "real list list list"



text \<open>\<open>layer d fs\<close> is \<open>fs[0, :, :, d]\<close>, one frame of the stack.\<close>

definition layer :: "nat \<Rightarrow> stack \<Rightarrow> real list list" where
  "layer d fs = map (map (\<lambda>v. v ! d)) (st_rows fs)"


text \<open>
  A transition is the 5-tuple stored by \<open>append_to_replay_memory\<close>.
  \<open>current_action_index\<close> starts as \<open>None\<close> and is assigned by the caller.
\<close>

record transition =
  prior_stack :: stack
  action_index :: "int option"
  reward :: real
  resulting_stack :: stack
  is_terminal :: bool

text \<open>\<open>collections.deque(maxlen=n)\<close>, oldest item first.\<close>

record 'a deque =
  maxlen :: nat
  items :: "'a list"

definition deque_append :: "'a \<Rightarrow> 'a deque \<Rightarrow> 'a deque" where
  "deque_append x d =
     (if maxlen d = 0 then d
      else let xs = items d @ [x]
           in d\<lparr>items := (if length xs > maxlen d then tl xs else xs)\<rparr>)"

text \<open>
  \<open>EpsilonGreedyQPolicy\<close> is imported by dqn.py; the agent reads and writes its
  \<open>epsilon\<close> attribute and calls its \<open>erode\<close>, which is a parameter of the model.
\<close>

record policy =
  epsilon :: real
  pol_initial_epsilon :: real
  pol_final_epsilon :: real
  pol_max_steps :: int

text \<open>
  The Keras model: its weights (of an abstract type), the loss it is compiled with and
  the learning rate of its optimizer. \<open>predict\<close> and \<open>train_on_batch\<close> are parameters.
\<close>

record 'w approximator =
  weights :: 'w
  loss :: string
  learning_rate :: real

record ('w, 'vd) dqn =
  replay_memory :: "transition deque"
  batch_size :: nat
  action_count :: nat
  frame_stack :: "stack option"
  max_steps :: int
  observe_steps :: real
  current_observe_step :: int
  current_step :: int
  initial_epsilon :: real
  final_epsilon :: real
  previous_epsilon :: "real option"
  epsilon_greedy_q_policy :: policy
  gamma :: real
  current_action_index :: "int option"
  current_action_type :: "string option"
  first_run :: bool
  mode :: mode_t
  model_learning_rate :: real
  model :: "'w approximator"
  model_loss :: real
  visual_debugger :: 'vd

section \<open>Mode switches and counters\<close>

definition enter_train_mode :: "('w, 'vd) dqn \<Rightarrow> ('w, 'vd) dqn" where
  "enter_train_mode s =
     (let s1 = (case previous_epsilon s of
                  Some e \<Rightarrow> s\<lparr>epsilon_greedy_q_policy := (epsilon_greedy_q_policy s)\<lparr>epsilon := e\<rparr>,
                              previous_epsilon := None\<rparr>
                | None \<Rightarrow> s)
      in s1\<lparr>mode := TRAIN\<rparr>)"

definition enter_run_mode :: "('w, 'vd) dqn \<Rightarrow> ('w, 'vd) dqn" where
  "enter_run_mode s =
     s\<lparr>previous_epsilon := Some (epsilon (epsilon_greedy_q_policy s)),
       epsilon_greedy_q_policy := (epsilon_greedy_q_policy s)\<lparr>epsilon := 0\<rparr>,
       mode := RUN\<rparr>"

definition next_step :: "('w, 'vd) dqn \<Rightarrow> ('w, 'vd) dqn" where
  "next_step s =
     (if mode s = TRAIN
      then s\<lparr>current_step := current_step s + 1,
             current_observe_step := current_observe_step s + 1\<rparr>
      else s)"

definition erode_epsilon ::
  "(real \<Rightarrow> policy \<Rightarrow> policy) \<Rightarrow> real \<Rightarrow> ('w, 'vd) dqn \<Rightarrow> ('w, 'vd) dqn" where
  "erode_epsilon erode factor s =
     (if real_of_int (current_observe_step s) > observe_steps s \<and> mode s = TRAIN
      then s\<lparr>epsilon_greedy_q_policy := erode factor (epsilon_greedy_q_policy s)\<rparr>
      else s)"

section \<open>Frame stack\<close>

text \<open>
  \<open>np.stack\<close> of eight references to the frame along a new last axis, then a leading
  axis of length 1.
\<close>

definition stack_of_frame :: "frame \<Rightarrow> stack" where
  "stack_of_frame g =
     \<lparr>st_height = height g, st_width = width g, st_depth = 8,
      st_rows = map (map (replicate 8)) (rows g)\<rparr>"

definition build_frame_stack :: "frame \<Rightarrow> ('w, 'vd) dqn \<Rightarrow> ('w, 'vd) dqn" where
  "build_frame_stack game_frame s = s\<lparr>frame_stack := Some (stack_of_frame game_frame)\<rparr>"

text \<open>
  \<open>np.append(game_frame, frame_stack[:, :, :, :-1], axis=3)\<close>: concatenation along the
  last axis needs the other three axes to agree, else numpy raises ValueError. The slice
  \<open>:-1\<close> keeps all but the last entry of each depth vector.
\<close>

definition shift_in :: "frame \<Rightarrow> stack \<Rightarrow> py_error + stack" where
  "shift_in g fs =
     (if height g = st_height fs \<and> width g = st_width fs
      then Inr \<lparr>st_height = st_height fs, st_width = st_width fs,
                st_depth = 1 + (st_depth fs - 1),
                st_rows = map2 (map2 (\<lambda>p v. p # butlast v)) (rows g) (st_rows fs)\<rparr>
      else Inl ValueError)"

definition update_frame_stack :: "frame \<Rightarrow> ('w, 'vd) dqn \<Rightarrow> ('w, 'vd) dqn outcome" where
  "update_frame_stack game_frame s =
     (case frame_stack s of
        None \<Rightarrow> Raised TypeError s
      | Some fs \<Rightarrow>
          (case shift_in game_frame fs of
             Inl e \<Rightarrow> Raised e s
           | Inr fs' \<Rightarrow> Returned (s\<lparr>frame_stack := Some fs'\<rparr>)))"

section \<open>Replay memory\<close>

text \<open>
  The stored tuple holds the stack before and after the update; both are arrays whenever
  the update returned, so the last branch is never taken.
\<close>

definition append_to_replay_memory ::
  "frame \<Rightarrow> real \<Rightarrow> ('w, 'vd) dqn \<Rightarrow> ('w, 'vd) dqn outcome" where
  "append_to_replay_memory game_frame r s =
     (let previous_frame_stack = frame_stack s
      in case update_frame_stack game_frame s of
           Raised e s' \<Rightarrow> Raised e s'
         | Returned s' \<Rightarrow>
             (case (previous_frame_stack, frame_stack s') of
                (Some p, Some n) \<Rightarrow>
                  Returned (s'\<lparr>replay_memory :=
                    deque_append
                      \<lparr>prior_stack = p, action_index = current_action_index s',
                       reward = r, resulting_stack = n, is_terminal = False\<rparr>
                      (replay_memory s')\<rparr>)
              | _ \<Rightarrow> Raised TypeError s'))"

text \<open>A run of the caller's loop: one append per (frame, reward), stopping at a raise.\<close>

fun append_all :: "(frame \<times> real) list \<Rightarrow> ('w, 'vd) dqn \<Rightarrow> ('w, 'vd) dqn outcome" where
  "append_all [] s = Returned s"
| "append_all ((g, r) # rest) s =
     (case append_to_replay_memory g r s of
        Raised e s' \<Rightarrow> Raised e s'
      | Returned s' \<Rightarrow> append_all rest s')"


text \<open>
  Steps of the caller's loop: each appends the transition of the step with
  \<open>append_to_replay_memory\<close> and counts the step with \<open>next_step\<close>.
\<close>

fun step_all :: "(frame \<times> real) list \<Rightarrow> ('w, 'vd) dqn \<Rightarrow> ('w, 'vd) dqn outcome" where
  "step_all [] s = Returned s"
| "step_all ((g, r) # rest) s =
     (case append_to_replay_memory g r s of
        Raised e s' \<Rightarrow> Raised e s'
      | Returned s' \<Rightarrow> step_all rest (next_step s'))"

section \<open>Training on a mini-batch\<close>

text \<open>
  \<open>random.sample(population, k)\<close> raises ValueError when \<open>k\<close> exceeds the population
  and otherwise returns \<open>k\<close> items at distinct positions. Which positions is decided by
  the generator, whose draws \<open>rnd 0, rnd 1, ...\<close> are an input of the model: each draw
  picks one of the items not picked yet.
\<close>

fun sample_from :: "(nat \<Rightarrow> nat) \<Rightarrow> 'a list \<Rightarrow> nat \<Rightarrow> 'a list" where
  "sample_from rnd pool 0 = []"
| "sample_from rnd pool (Suc k) =
     (let j = rnd 0 mod length pool
      in pool ! j # sample_from (\<lambda>i. rnd (Suc i)) (take j pool @ drop (Suc j) pool) k)"

definition random_sample :: "(nat \<Rightarrow> nat) \<Rightarrow> 'a list \<Rightarrow> nat \<Rightarrow> py_error + 'a list" where
  "random_sample rnd population k =
     (if k > length population then Inl ValueError else Inr (sample_from rnd population k))"

text \<open>
  Assignment into a numpy array broadcasts: an axis of the source must have the length
  of the target's axis, or length 1 (then its single entry is repeated).
\<close>

definition bc :: "nat \<Rightarrow> nat \<Rightarrow> 'a list \<Rightarrow> 'a list" where
  "bc n m xs = (if m = n then xs else replicate n (hd xs))"

text \<open>\<open>inputs[i:i + 1] = previous_frame_stack\<close>, for \<open>inputs\<close> of shape \<open>(batch, H, W, D)\<close>.\<close>

definition slice_assign :: "nat \<Rightarrow> nat \<Rightarrow> nat \<Rightarrow> stack \<Rightarrow> py_error + real list list list" where
  "slice_assign H W D src =
     (if (st_height src = H \<or> st_height src = 1) \<and>
         (st_width src = W \<or> st_width src = 1) \<and>
         (st_depth src = D \<or> st_depth src = 1)
      then Inr (bc H (st_height src)
             (map (\<lambda>row. bc W (st_width src) (map (bc D (st_depth src)) row)) (st_rows src)))
      else Inl ValueError)"

text \<open>
  \<open>targets[i, action_index] = v\<close> on the row \<open>targets[i]\<close> of length \<open>n\<close>: a negative
  index counts from the end, an index outside \<open>[-n, n)\<close> raises IndexError, and the
  index \<open>None\<close> is numpy's \<open>newaxis\<close>, which selects the whole row.
\<close>

definition set_column :: "nat \<Rightarrow> int option \<Rightarrow> real \<Rightarrow> real list \<Rightarrow> py_error + real list" where
  "set_column n a v row =
     (case a of
        None \<Rightarrow> Inr (replicate (length row) v)
      | Some k \<Rightarrow>
          if 0 \<le> k \<and> k < int n then Inr (row[nat k := v])
          else if - int n \<le> k \<and> k < 0 then Inr (row[nat (k + int n) := v])
          else Inl IndexError)"

text \<open>\<open>np.max\<close> raises ValueError on an array without elements.\<close>

definition np_max :: "real list \<Rightarrow> py_error + real" where
  "np_max xs = (case xs of [] \<Rightarrow> Inl ValueError | x # rest \<Rightarrow> Inr (fold max rest x))"

text \<open>
  Lines 156 to 170 for one transition: the row \<open>targets[i]\<close> after the iteration.
  \<open>predict\<close> returns the single row of the network's output.
\<close>

definition target_row ::
  "('w approximator \<Rightarrow> stack \<Rightarrow> real list) \<Rightarrow> 'w approximator \<Rightarrow> real \<Rightarrow> nat \<Rightarrow>
   transition \<Rightarrow> py_error + real list" where
  "target_row predict m g n t =
     (let p = predict m (prior_stack t)
      in if length p = n \<or> length p = 1
         then (let row = bc n (length p) p;
                   projected_future_rewards = predict m (resulting_stack t)
               in if is_terminal t
                  then set_column n (action_index t) (reward t) row
                  else (case np_max projected_future_rewards of
                          Inl e \<Rightarrow> Inl e
                        | Inr mx \<Rightarrow> set_column n (action_index t) (reward t + g * mx) row))
         else Inl ValueError)"

section \<open>Strings: \<open>str\<close>, \<open>int\<close> and \<open>split\<close>\<close>

definition digit_char :: "nat \<Rightarrow> char" where
  "digit_char d = ''0123456789'' ! d"

fun str_nat :: "nat \<Rightarrow> string" where
  "str_nat n = (if n < 10 then [digit_char n] else str_nat (n div 10) @ [digit_char (n mod 10)])"

declare str_nat.simps [simp del]

definition str_int :: "int \<Rightarrow> string" where
  "str_int i = (if i < 0 then CHR ''-'' # str_nat (nat (- i)) else str_nat (nat i))"

text \<open>Texts made of decimal digits only, as \<open>str\<close> prints a natural number.\<close>

definition plain_digits :: "string \<Rightarrow> bool" where
  "plain_digits s = (s \<noteq> [] \<and> (\<forall>c \<in> set s. \<exists>d < 10. c = digit_char d))"

definition digit_val :: "char \<Rightarrow> nat option" where
  "digit_val c =
     map_of [(CHR ''0'', 0), (CHR ''1'', 1), (CHR ''2'', 2), (CHR ''3'', 3), (CHR ''4'', 4),
             (CHR ''5'', 5), (CHR ''6'', 6), (CHR ''7'', 7), (CHR ''8'', 8), (CHR ''9'', 9)] c"

fun digits_value :: "string \<Rightarrow> nat \<Rightarrow> nat option" where
  "digits_value [] acc = Some acc"
| "digits_value (c # cs) acc =
     (case digit_val c of None \<Rightarrow> None | Some d \<Rightarrow> digits_value cs (10 * acc + d))"

definition parse_digits :: "string \<Rightarrow> nat option" where
  "parse_digits s = (if s = [] then None else digits_value s 0)"

text \<open>
  The characters of a path are the code points 0 to 255. \<open>int\<close> skips, at both ends,
  the ASCII whitespace of C (tab to carriage return, and the space) and the other
  Unicode whitespace, of which this range holds U+0085 and U+00A0; the separators
  U+001C to U+001F are not skipped.
\<close>

definition is_space :: "char \<Rightarrow> bool" where
  "is_space c =
     (c \<in> set [CHR 0x09, CHR 0x0A, CHR 0x0B, CHR 0x0C, CHR 0x0D, CHR '' '',
               CHR 0x85, CHR 0xA0])"

definition strip :: "string \<Rightarrow> string" where
  "strip s = rev (dropWhile is_space (rev (dropWhile is_space s)))"

text \<open>
  \<open>int(s)\<close>: surrounding whitespace, an optional sign, then decimal digits (in the
  range 0 to 255 these are the ASCII digits); \<open>None\<close> where Python raises
  ValueError. (Python also accepts single underscores between digits; the fields
  parsed here come from \<open>split("_")\<close> and hold none. The limit that later
  interpreters put on the number of digits, 4300 unless configured, is not modelled.)
\<close>

definition int_of_str :: "string \<Rightarrow> int option" where
  "int_of_str s =
     (case strip s of
        [] \<Rightarrow> None
      | c # cs \<Rightarrow>
          if c = CHR ''-'' then map_option (\<lambda>n. - int n) (parse_digits cs)
          else if c = CHR ''+'' then map_option int (parse_digits cs)
          else map_option int (parse_digits (c # cs)))"

text \<open>\<open>s.split(sep)\<close> for a one-character separator: never empty, keeps empty fields.\<close>

fun split_on :: "char \<Rightarrow> string \<Rightarrow> string list" where
  "split_on sep [] = [[]]"
| "split_on sep (x # xs) =
     (if x = sep then [] # split_on sep xs
      else (case split_on sep xs of
              [] \<Rightarrow> [[x]]
            | p # ps \<Rightarrow> (x # p) # ps))"

section \<open>The loop of \<open>train_on_mini_batch\<close>\<close>

text \<open>\<open>xs.index(x)\<close> for an \<open>x\<close> that occurs in \<open>xs\<close>.\<close>

definition index_of :: "'a list \<Rightarrow> 'a \<Rightarrow> nat" where
  "index_of xs x = length (takeWhile (\<lambda>y. y \<noteq> x) xs)"

text \<open>
  The flashback of iteration \<open>i\<close>: \<open>mini_batch[i][3][:, :, :, 1]\<close> raises IndexError on a
  stack of depth below 2; \<open>np.squeeze\<close> drops the axes of length 1. The visual debugger
  (\<open>store_image_data\<close>) and numpy's conversion to \<open>uint8\<close> are parameters.
\<close>

definition flashback ::
  "(nat list list \<Rightarrow> nat list \<Rightarrow> string \<Rightarrow> 'vd \<Rightarrow> 'vd) \<Rightarrow> (real \<Rightarrow> nat) \<Rightarrow>
   nat list \<Rightarrow> nat \<Rightarrow> transition \<Rightarrow> 'vd \<Rightarrow> py_error + 'vd" where
  "flashback store_image_data to_uint8 flashback_indices i t vd =
     (if i \<in> set flashback_indices
      then (if st_depth (resulting_stack t) < 2 then Inl IndexError
            else Inr (store_image_data
                   (map (map (\<lambda>x. to_uint8 (x * 255))) (layer 1 (resulting_stack t)))
                   (filter (\<lambda>d. d \<noteq> 1)
                      [1, st_height (resulting_stack t), st_width (resulting_stack t)])
                   (''flashback_'' @ str_nat (index_of flashback_indices i + 1))
                   vd))
      else Inr vd)"

text \<open>
  One iteration of the loop of \<open>train_on_mini_batch\<close> on the local arrays \<open>inputs\<close> and
  \<open>targets\<close> and the visual debugger; an error carries the debugger as it is then.
\<close>

definition loop_body ::
  "('w approximator \<Rightarrow> stack \<Rightarrow> real list) \<Rightarrow>
   (nat list list \<Rightarrow> nat list \<Rightarrow> string \<Rightarrow> 'vd \<Rightarrow> 'vd) \<Rightarrow> (real \<Rightarrow> nat) \<Rightarrow>
   ('w, 'vd) dqn \<Rightarrow> stack \<Rightarrow> nat list \<Rightarrow> transition list \<Rightarrow> nat \<Rightarrow>
   real list list list list \<times> real list list \<times> 'vd \<Rightarrow>
   (py_error \<times> 'vd) + (real list list list list \<times> real list list \<times> 'vd)" where
  "loop_body predict store_image_data to_uint8 s fs flashback_indices mini_batch i acc =
     (case acc of (inputs, targets, vd) \<Rightarrow>
        (let t = mini_batch ! i
         in case flashback store_image_data to_uint8 flashback_indices i t vd of
              Inl e \<Rightarrow> Inl (e, vd)
            | Inr vd1 \<Rightarrow>
                (case slice_assign (st_height fs) (st_width fs) (st_depth fs) (prior_stack t) of
                   Inl e \<Rightarrow> Inl (e, vd1)
                 | Inr x \<Rightarrow>
                     (case target_row predict (model s) (gamma s) (action_count s) t of
                        Inl e \<Rightarrow> Inl (e, vd1)
                      | Inr row \<Rightarrow> Inr (inputs[i := x], targets[i := row], vd1)))))"

fun batch_loop ::
  "(nat \<Rightarrow> 'acc \<Rightarrow> 'err + 'acc) \<Rightarrow> nat list \<Rightarrow> 'acc \<Rightarrow> 'err + 'acc" where
  "batch_loop body [] acc = Inr acc"
| "batch_loop body (i # rest) acc =
     (case body i acc of Inl e \<Rightarrow> Inl e | Inr acc' \<Rightarrow> batch_loop body rest acc')"

text \<open>
  The arrays handed to \<open>train_on_batch\<close> for a mini-batch (lines 135 to 172), from
  \<open>np.zeros\<close> through the loop over \<open>range(0, len(mini_batch))\<close>.
\<close>

definition batch_arrays ::
  "('w approximator \<Rightarrow> stack \<Rightarrow> real list) \<Rightarrow>
   (nat list list \<Rightarrow> nat list \<Rightarrow> string \<Rightarrow> 'vd \<Rightarrow> 'vd) \<Rightarrow> (real \<Rightarrow> nat) \<Rightarrow>
   ('w, 'vd) dqn \<Rightarrow> stack \<Rightarrow> nat list \<Rightarrow> transition list \<Rightarrow>
   (py_error \<times> 'vd) + (real list list list list \<times> real list list \<times> 'vd)" where
  "batch_arrays predict store_image_data to_uint8 s fs flashback_indices mini_batch =
     batch_loop
       (loop_body predict store_image_data to_uint8 s fs flashback_indices mini_batch)
       [0 ..< length mini_batch]
       (replicate (batch_size s)
          (replicate (st_height fs) (replicate (st_width fs) (replicate (st_depth fs) 0))),
        replicate (batch_size s) (replicate (action_count s) 0),
        visual_debugger s)"

definition train_on_mini_batch ::
  "('w approximator \<Rightarrow> stack \<Rightarrow> real list) \<Rightarrow>
   ('w approximator \<Rightarrow> real list list list list \<Rightarrow> real list list \<Rightarrow> 'w approximator \<times> real) \<Rightarrow>
   (nat list list \<Rightarrow> nat list \<Rightarrow> string \<Rightarrow> 'vd \<Rightarrow> 'vd) \<Rightarrow> (real \<Rightarrow> nat) \<Rightarrow>
   (nat \<Rightarrow> nat) \<Rightarrow> ('w, 'vd) dqn \<Rightarrow> ('w, 'vd) dqn outcome" where
  "train_on_mini_batch predict train_on_batch store_image_data to_uint8 rnd s =
     (if real_of_int (current_observe_step s) \<le> observe_steps s then Returned s
      else
        (case random_sample rnd (items (replay_memory s)) (batch_size s) of
           Inl e \<Rightarrow> Raised e s
         | Inr mini_batch \<Rightarrow>
             (case frame_stack s of
                None \<Rightarrow> Raised AttributeError s
              | Some fs \<Rightarrow>
                  (case random_sample (\<lambda>i. rnd (i + batch_size s)) [0 ..< batch_size s] 6 of
                     Inl e \<Rightarrow> Raised e s
                   | Inr flashback_indices \<Rightarrow>
                       (case batch_arrays predict store_image_data to_uint8 s fs
                               flashback_indices mini_batch of
                          Inl (e, vd) \<Rightarrow> Raised e (s\<lparr>visual_debugger := vd\<rparr>)
                        | Inr (inputs, targets, vd) \<Rightarrow>
                            (case train_on_batch (model s) inputs targets of
                               (m, l) \<Rightarrow>
                                 Returned (s\<lparr>visual_debugger := vd, model := m,
                                            model_loss := l\<rparr>)))))))"

section \<open>Saving and loading weights\<close>

text \<open>
  The weight files are a map from paths to weights. Python's \<open>str\<close> and \<open>float\<close> on
  the epsilon value are the parameters \<open>float_str\<close> and \<open>float_of_str\<close>.
\<close>

definition save_file_path ::
  "(real \<Rightarrow> string) \<Rightarrow> string \<Rightarrow> bool \<Rightarrow> ('w, 'vd) dqn \<Rightarrow> string" where
  "save_file_path float_str file_path_prefix is_checkpoint s =
     (let eps = epsilon (epsilon_greedy_q_policy s)
      in if is_checkpoint
         then file_path_prefix @ ''_dqn_'' @ str_int (current_step s) @ ''_'' @
              float_str eps @ ''_.h5''
         else file_path_prefix @ ''_dqn_'' @ float_str eps @ ''_.h5'')"

definition save_model_weights ::
  "(real \<Rightarrow> string) \<Rightarrow> string \<Rightarrow> bool \<Rightarrow> ('w, 'vd) dqn \<Rightarrow> (string \<rightharpoonup> 'w) \<Rightarrow> (string \<rightharpoonup> 'w)" where
  "save_model_weights float_str file_path_prefix is_checkpoint s files =
     files(save_file_path float_str file_path_prefix is_checkpoint s \<mapsto> weights (model s))"

text \<open>
  \<open>load_model_weights\<close>, statement by statement: the weights are loaded (OSError when
  there is no such file) and the model recompiled before the path is split; the starred
  unpacking \<open>*args, steps, epsilon, extension = ...\<close> needs three fields at least;
  \<open>current_step\<close> is assigned before \<open>float(epsilon)\<close> is evaluated.
\<close>

definition unpack_star3 :: "'a list \<Rightarrow> ('a list \<times> 'a \<times> 'a \<times> 'a) option" where
  "unpack_star3 xs =
     (if length xs < 3 then None
      else Some (take (length xs - 3) xs, xs ! (length xs - 3), xs ! (length xs - 2),
                 xs ! (length xs - 1)))"

definition load_model_weights ::
  "(string \<Rightarrow> real option) \<Rightarrow> (string \<rightharpoonup> 'w) \<Rightarrow> string \<Rightarrow> bool \<Rightarrow>
   ('w, 'vd) dqn \<Rightarrow> ('w, 'vd) dqn outcome" where
  "load_model_weights float_of_str files file_path override_epsilon s =
     (case files file_path of
        None \<Rightarrow> Raised OSError s
      | Some w \<Rightarrow>
          (let s1 = s\<lparr>model := (model s)\<lparr>weights := w\<rparr>\<rparr>;
               s2 = s1\<lparr>model := (model s1)\<lparr>loss := ''mse'',
                                             learning_rate := model_learning_rate s1\<rparr>\<rparr>
           in case unpack_star3 (split_on CHR ''_'' file_path) of
                None \<Rightarrow> Raised ValueError s2
              | Some (args, steps, eps, extension) \<Rightarrow>
                  (case int_of_str steps of
                     None \<Rightarrow> Raised ValueError s2
                   | Some k \<Rightarrow>
                       (let s3 = s2\<lparr>current_step := k\<rparr>
                        in if override_epsilon
                           then (case float_of_str eps of
                                   None \<Rightarrow> Raised ValueError s3
                                 | Some e \<Rightarrow>
                                     Returned (s3\<lparr>previous_epsilon := Some e,
                                                epsilon_greedy_q_policy :=
                                                  (epsilon_greedy_q_policy s3)\<lparr>epsilon := e\<rparr>\<rparr>))
                           else Returned s3))))"

section \<open>Construction\<close>

text \<open>
  The arguments of \<open>DQN.__init__\<close> that the modelled methods read, and the defaults of
  its signature. \<open>arg_action_count\<close> is \<open>len(action_space.combinations)\<close>.
\<close>

record dqn_args =
  arg_replay_memory_size :: nat
  arg_batch_size :: nat
  arg_action_count :: nat
  arg_max_steps :: int
  arg_observe_steps :: "real option"
  arg_initial_epsilon :: real
  arg_final_epsilon :: real
  arg_gamma :: real
  arg_model_file_path :: "string option"
  arg_model_learning_rate :: real
  arg_override_epsilon :: bool

definition default_args :: "nat \<Rightarrow> dqn_args" where
  "default_args n_actions =
     \<lparr>arg_replay_memory_size = 15000, arg_batch_size = 32, arg_action_count = n_actions,
      arg_max_steps = 1000000, arg_observe_steps = None, arg_initial_epsilon = 1,
      arg_final_epsilon = 1 / 10, arg_gamma = 99 / 100, arg_model_file_path = None,
      arg_model_learning_rate = 1 / 100000, arg_override_epsilon = False\<rparr>"

text \<open>
  \<open>w0\<close> are the weights of the freshly initialised network and \<open>vd0\<close> the new visual
  debugger. \<open>observe_steps or (0.1 * replay_memory_size)\<close> takes the default for
  \<open>None\<close> and for 0.
\<close>

definition fresh_agent :: "'w \<Rightarrow> 'vd \<Rightarrow> dqn_args \<Rightarrow> ('w, 'vd) dqn" where
  "fresh_agent w0 vd0 a =
     \<lparr>replay_memory = \<lparr>maxlen = arg_replay_memory_size a, items = []\<rparr>,
      batch_size = arg_batch_size a,
      action_count = arg_action_count a,
      frame_stack = None,
      max_steps = arg_max_steps a,
      observe_steps =
        (case arg_observe_steps a of
           None \<Rightarrow> (1 / 10) * real (arg_replay_memory_size a)
         | Some v \<Rightarrow> if v = 0 then (1 / 10) * real (arg_replay_memory_size a) else v),
      current_observe_step = 0,
      current_step = 0,
      initial_epsilon = arg_initial_epsilon a,
      final_epsilon = arg_final_epsilon a,
      previous_epsilon = Some (arg_initial_epsilon a),
      epsilon_greedy_q_policy =
        \<lparr>epsilon = arg_initial_epsilon a, pol_initial_epsilon = arg_initial_epsilon a,
         pol_final_epsilon = arg_final_epsilon a, pol_max_steps = arg_max_steps a\<rparr>,
      gamma = arg_gamma a,
      current_action_index = None,
      current_action_type = None,
      first_run = True,
      mode = TRAIN,
      model_learning_rate = arg_model_learning_rate a,
      model = \<lparr>weights = w0, loss = ''logcosh'', learning_rate = arg_model_learning_rate a\<rparr>,
      model_loss = 0,
      visual_debugger = vd0\<rparr>"

definition init ::
  "(string \<Rightarrow> real option) \<Rightarrow> (string \<rightharpoonup> 'w) \<Rightarrow> 'w \<Rightarrow> 'vd \<Rightarrow> dqn_args \<Rightarrow>
   py_error + ('w, 'vd) dqn" where
  "init float_of_str files w0 vd0 a =
     (let s0 = fresh_agent w0 vd0 a
      in case arg_model_file_path a of
           None \<Rightarrow> Inr s0
         | Some file_path \<Rightarrow>
             (case load_model_weights float_of_str files file_path (arg_override_epsilon a) s0 of
                Raised e s' \<Rightarrow> Inl e
              | Returned s' \<Rightarrow> Inr (s'\<lparr>model_loss := 0\<rparr>)))"

section \<open>The example scenario of the specification\<close>

text \<open>
  An action space of 4 combinations, \<open>replay_memory_size=10\<close>, \<open>observe_steps=5\<close>,
  \<open>batch_size=2\<close>; frames of one pixel; the agent after \<open>build_frame_stack\<close>, then
  after \<open>n\<close> steps of the caller's loop. The network is a counter: a training step adds
  one to the weights and reports the loss 1.
\<close>

definition scenario_args :: dqn_args where
  "scenario_args =
     (default_args 4)\<lparr>arg_replay_memory_size := 10, arg_observe_steps := Some 5,
                      arg_batch_size := 2\<rparr>"

definition pixel_frame :: "real \<Rightarrow> frame" where
  "pixel_frame v = \<lparr>height = 1, width = 1, rows = [[v]]\<rparr>"

definition scenario_start :: "(nat, unit) dqn" where
  "scenario_start = build_frame_stack (pixel_frame 0) (fresh_agent 0 () scenario_args)"

definition scenario_steps :: "nat \<Rightarrow> (nat, unit) dqn outcome" where
  "scenario_steps n = step_all (replicate n (pixel_frame 1, 1)) scenario_start"

definition counter_predict :: "nat approximator \<Rightarrow> stack \<Rightarrow> real list" where
  "counter_predict m x = replicate 4 (real (weights m))"

definition counter_train ::
  "nat approximator \<Rightarrow> real list list list list \<Rightarrow> real list list \<Rightarrow> nat approximator \<times> real" where
  "counter_train m inputs targets = (m\<lparr>weights := Suc (weights m)\<rparr>, 1)"

text \<open>Running a method on the agent an earlier call returned.\<close>

definition and_then :: "'s outcome \<Rightarrow> ('s \<Rightarrow> 's outcome) \<Rightarrow> 's outcome" where
  "and_then r f = (case r of Returned s \<Rightarrow> f s | Raised e s \<Rightarrow> Raised e s)"

definition is_returned :: "'s outcome \<Rightarrow> bool" where
  "is_returned r = (case r of Returned s \<Rightarrow> True | Raised e s \<Rightarrow> False)"

text \<open>
  An agent that can train: as in the scenario but with \<open>batch_size=6\<close> and weights 1,
  the caller has chosen action 1, six frames were appended and six steps counted.
\<close>

definition training_start :: "(nat, unit) dqn" where
  "training_start =
     (build_frame_stack (pixel_frame 0)
        (fresh_agent 1 () (scenario_args\<lparr>arg_batch_size := 6\<rparr>)))
       \<lparr>current_action_index := Some 1\<rparr>"

definition training_example :: "(nat, unit) dqn outcome" where
  "training_example =
     and_then (append_all (replicate 6 (pixel_frame 1, 1)) training_start)
       (\<lambda>s. Returned (next_step (next_step (next_step (next_step (next_step (next_step s)))))))"

section \<open>Properties of the mode switches\<close>

text \<open>
  C4. For every prior epsilon, \<open>enter_run_mode\<close> sets the policy's epsilon to exactly 0
  (and remembers the prior value), and an \<open>enter_train_mode\<close> that follows it restores
  exactly the epsilon in effect before entering RUN mode.
\<close>

theorem enter_run_then_train:
  "epsilon (epsilon_greedy_q_policy (enter_run_mode s)) = 0 \<and>
   mode (enter_run_mode s) = RUN \<and>
   previous_epsilon (enter_run_mode s) = Some (epsilon (epsilon_greedy_q_policy s)) \<and>
   epsilon (epsilon_greedy_q_policy (enter_train_mode (enter_run_mode s)))
     = epsilon (epsilon_greedy_q_policy s) \<and>
   mode (enter_train_mode (enter_run_mode s)) = TRAIN"
  by (simp add: enter_run_mode_def enter_train_mode_def)

text \<open>
  C10. For an agent whose epsilon \<open>e\<close> is positive, \<open>enter_run_mode\<close> twice and then
  \<open>enter_train_mode\<close> leaves epsilon at 0 and not at \<open>e\<close>: the second call saves the
  epsilon already set to 0 as \<open>previous_epsilon\<close>, and nothing keeps \<open>e\<close>.
\<close>

theorem second_run_mode_loses_epsilon:
  assumes "0 < epsilon (epsilon_greedy_q_policy s)"
  shows "epsilon (epsilon_greedy_q_policy (enter_train_mode (enter_run_mode (enter_run_mode s)))) = 0 \<and>
         epsilon (epsilon_greedy_q_policy (enter_train_mode (enter_run_mode (enter_run_mode s))))
           \<noteq> epsilon (epsilon_greedy_q_policy s) \<and>
         previous_epsilon (enter_run_mode (enter_run_mode s)) = Some 0 \<and>
         previous_epsilon (enter_train_mode (enter_run_mode (enter_run_mode s))) = None"
  using assms by (simp add: enter_run_mode_def enter_train_mode_def)

theorem second_run_mode_loses_epsilon_witness:
  "0 < epsilon (epsilon_greedy_q_policy scenario_start) \<and>
   epsilon (epsilon_greedy_q_policy scenario_start) = 1 \<and>
   epsilon (epsilon_greedy_q_policy
      (enter_train_mode (enter_run_mode (enter_run_mode scenario_start)))) = 0"
proof -
  have e: "epsilon (epsilon_greedy_q_policy scenario_start) = 1"
    by (simp add: scenario_start_def build_frame_stack_def fresh_agent_def scenario_args_def
        default_args_def)
  then have h: "0 < epsilon (epsilon_greedy_q_policy scenario_start)" by simp
  from second_run_mode_loses_epsilon [OF h] e h show ?thesis by simp
qed

text \<open>
  C8. \<open>erode_epsilon\<close> calls the policy's \<open>erode\<close> only when \<open>current_observe_step\<close> is
  strictly above \<open>observe_steps\<close> and the mode is TRAIN, and then changes nothing but
  the policy; in every other state (observe-only phase, or mode RUN) the agent is left
  exactly as it was.
\<close>

theorem erode_epsilon_gate:
  "(real_of_int (current_observe_step s) \<le> observe_steps s \<or> mode s = RUN \<longrightarrow>
      erode_epsilon erode factor s = s) \<and>
   (erode_epsilon erode factor s \<noteq> s \<longrightarrow>
      real_of_int (current_observe_step s) > observe_steps s \<and> mode s = TRAIN) \<and>
   (real_of_int (current_observe_step s) > observe_steps s \<and> mode s = TRAIN \<longrightarrow>
      erode_epsilon erode factor s
        = s\<lparr>epsilon_greedy_q_policy := erode factor (epsilon_greedy_q_policy s)\<rparr>)"
  by (auto simp: erode_epsilon_def)

theorem erode_epsilon_gate_witness:
  "erode_epsilon (\<lambda>f p. p\<lparr>epsilon := epsilon p - f / 10\<rparr>) 1 scenario_start = scenario_start \<and>
   erode_epsilon (\<lambda>f p. p\<lparr>epsilon := epsilon p - f / 10\<rparr>) 1
       (enter_run_mode (scenario_start\<lparr>current_observe_step := 6\<rparr>))
     = enter_run_mode (scenario_start\<lparr>current_observe_step := 6\<rparr>) \<and>
   epsilon (epsilon_greedy_q_policy
      (erode_epsilon (\<lambda>f p. p\<lparr>epsilon := epsilon p - f / 10\<rparr>) 1
         (scenario_start\<lparr>current_observe_step := 6\<rparr>))) = 9 / 10"
  using erode_epsilon_gate [of scenario_start "\<lambda>f p. p\<lparr>epsilon := epsilon p - f / 10\<rparr>" 1]
    erode_epsilon_gate [of "enter_run_mode (scenario_start\<lparr>current_observe_step := 6\<rparr>)"
       "\<lambda>f p. p\<lparr>epsilon := epsilon p - f / 10\<rparr>" 1]
    erode_epsilon_gate [of "scenario_start\<lparr>current_observe_step := 6\<rparr>"
       "\<lambda>f p. p\<lparr>epsilon := epsilon p - f / 10\<rparr>" 1]
  by (simp add: scenario_start_def build_frame_stack_def fresh_agent_def scenario_args_def
      default_args_def enter_run_mode_def)

section \<open>Properties of the frame stack and the replay memory\<close>

lemma update_frame_stack_Raised:
  "update_frame_stack g s = Raised e s' \<Longrightarrow> s' = s"
  by (auto simp: update_frame_stack_def split: option.splits sum.splits)

lemma update_frame_stack_Returned:
  "update_frame_stack g s = Returned s' \<Longrightarrow>
   \<exists>fs fs'. frame_stack s = Some fs \<and> shift_in g fs = Inr fs' \<and> s' = s\<lparr>frame_stack := Some fs'\<rparr>"
  by (auto simp: update_frame_stack_def split: option.splits sum.splits)

lemma append_to_replay_memory_Raised:
  "append_to_replay_memory g r s = Raised e s' \<Longrightarrow> s' = s"
  by (auto simp: append_to_replay_memory_def Let_def
      dest: update_frame_stack_Raised update_frame_stack_Returned
      split: outcome.splits option.splits)

lemma append_to_replay_memory_Returned:
  "append_to_replay_memory g r s = Returned s' \<Longrightarrow>
   \<exists>fs fs'. frame_stack s = Some fs \<and> shift_in g fs = Inr fs' \<and>
     s' = s\<lparr>frame_stack := Some fs',
            replay_memory := deque_append
              \<lparr>prior_stack = fs, action_index = current_action_index s, reward = r,
               resulting_stack = fs', is_terminal = False\<rparr> (replay_memory s)\<rparr>"
  by (auto simp: append_to_replay_memory_def Let_def
      dest!: update_frame_stack_Returned
      split: outcome.splits option.splits)

lemma shift_in_mismatch:
  "height g \<noteq> st_height fs \<or> width g \<noteq> st_width fs \<Longrightarrow> shift_in g fs = Inl ValueError"
  by (auto simp: shift_in_def)

text \<open>
  C9. A raise of \<open>update_frame_stack\<close>, alone or inside \<open>append_to_replay_memory\<close>,
  leaves the agent exactly as it was before the call: the stored frame stack is the
  same and no transition has been appended. A frame whose height or width differs from
  the stack's does make both raise (ValueError).
\<close>

theorem shape_mismatch_rejected_before_mutation:
  "(update_frame_stack g s = Raised e s' \<longrightarrow> s' = s) \<and>
   (append_to_replay_memory g r s = Raised e s' \<longrightarrow>
      s' = s \<and> frame_stack s' = frame_stack s \<and> replay_memory s' = replay_memory s) \<and>
   (frame_stack s = Some fs \<and> (height g \<noteq> st_height fs \<or> width g \<noteq> st_width fs) \<longrightarrow>
      update_frame_stack g s = Raised ValueError s \<and>
      append_to_replay_memory g r s = Raised ValueError s)"
proof -
  have u: "update_frame_stack g s = Raised e s' \<longrightarrow> s' = s"
    using update_frame_stack_Raised by blast
  have a: "append_to_replay_memory g r s = Raised e s' \<longrightarrow>
      s' = s \<and> frame_stack s' = frame_stack s \<and> replay_memory s' = replay_memory s"
    using append_to_replay_memory_Raised by blast
  have m: "frame_stack s = Some fs \<and> (height g \<noteq> st_height fs \<or> width g \<noteq> st_width fs) \<longrightarrow>
      update_frame_stack g s = Raised ValueError s \<and>
      append_to_replay_memory g r s = Raised ValueError s"
  proof
    assume h: "frame_stack s = Some fs \<and> (height g \<noteq> st_height fs \<or> width g \<noteq> st_width fs)"
    then have sh: "shift_in g fs = Inl ValueError" by (simp add: shift_in_mismatch)
    with h have us: "update_frame_stack g s = Raised ValueError s"
      by (simp add: update_frame_stack_def)
    then have "append_to_replay_memory g r s = Raised ValueError s"
      by (simp add: append_to_replay_memory_def)
    with us show "update_frame_stack g s = Raised ValueError s \<and>
      append_to_replay_memory g r s = Raised ValueError s" by simp
  qed
  from u a m show ?thesis by (intro conjI)
qed

theorem shape_mismatch_rejected_before_mutation_witness:
  "frame_stack scenario_start = Some (stack_of_frame (pixel_frame 0)) \<and>
   height \<lparr>height = 2, width = 1, rows = [[3], [4]]\<rparr> \<noteq> st_height (stack_of_frame (pixel_frame 0)) \<and>
   update_frame_stack \<lparr>height = 2, width = 1, rows = [[3], [4]]\<rparr> scenario_start
     = Raised ValueError scenario_start \<and>
   append_to_replay_memory \<lparr>height = 2, width = 1, rows = [[3], [4]]\<rparr> 1 scenario_start
     = Raised ValueError scenario_start"
  using shape_mismatch_rejected_before_mutation
    [of "\<lparr>height = 2, width = 1, rows = [[3], [4]]\<rparr>" scenario_start ValueError scenario_start 1
        "stack_of_frame (pixel_frame 0)"]
  by (simp add: scenario_start_def build_frame_stack_def stack_of_frame_def pixel_frame_def)

lemma deque_append_maxlen: "maxlen (deque_append x d) = maxlen d"
  by (simp add: deque_append_def Let_def)

lemma deque_append_items:
  "length (items d) \<le> maxlen d \<Longrightarrow>
   items (deque_append x d) = drop (Suc (length (items d)) - maxlen d) (items d @ [x])"
  by (cases "items d") (auto simp: deque_append_def Let_def Suc_diff_le)

lemma deque_append_bounded:
  "length (items d) \<le> maxlen d \<Longrightarrow> length (items (deque_append x d)) \<le> maxlen d"
  by (auto simp: deque_append_def Let_def)

lemma append_all_replay_memory:
  "append_all frs s = Returned s' \<Longrightarrow>
   length (items (replay_memory s)) \<le> maxlen (replay_memory s) \<Longrightarrow>
   \<exists>ts. map reward ts = map snd frs \<and>
        maxlen (replay_memory s') = maxlen (replay_memory s) \<and>
        length (items (replay_memory s')) \<le> maxlen (replay_memory s) \<and>
        items (replay_memory s')
          = drop (length (items (replay_memory s) @ ts) - maxlen (replay_memory s))
              (items (replay_memory s) @ ts)"
proof (induction frs arbitrary: s)
  case Nil
  then show ?case by simp
next
  case (Cons fr frs)
  obtain g r where fr: "fr = (g, r)" by (cases fr)
  from Cons.prems(1) fr obtain s1 where
    a1: "append_to_replay_memory g r s = Returned s1" and rest: "append_all frs s1 = Returned s'"
    by (auto split: outcome.splits)
  from append_to_replay_memory_Returned [OF a1] obtain t where
    rm: "replay_memory s1 = deque_append t (replay_memory s)" and rt: "reward t = r"
    by auto
  let ?d = "replay_memory s"
  have m1: "maxlen (replay_memory s1) = maxlen ?d" by (simp add: rm deque_append_maxlen)
  have b1: "length (items (replay_memory s1)) \<le> maxlen (replay_memory s1)"
    using Cons.prems(2) by (simp add: rm deque_append_maxlen deque_append_bounded)
  have i1: "items (replay_memory s1) = drop (Suc (length (items ?d)) - maxlen ?d) (items ?d @ [t])"
    using Cons.prems(2) by (simp add: rm deque_append_items)
  from Cons.IH [OF rest b1] obtain ts where
    ts: "map reward ts = map snd frs"
      "maxlen (replay_memory s') = maxlen (replay_memory s1)"
      "length (items (replay_memory s')) \<le> maxlen (replay_memory s1)"
      "items (replay_memory s')
          = drop (length (items (replay_memory s1) @ ts) - maxlen (replay_memory s1))
              (items (replay_memory s1) @ ts)"
    by blast
  have "items (replay_memory s')
      = drop (length (items ?d @ t # ts) - maxlen ?d) (items ?d @ t # ts)"
  proof -
    let ?a = "Suc (length (items ?d)) - maxlen ?d"
    have la: "length (items (replay_memory s1)) = Suc (length (items ?d)) - ?a"
      by (simp add: i1)
    have "items (replay_memory s')
        = drop (length (items (replay_memory s1)) + length ts - maxlen ?d)
            (drop ?a (items ?d @ [t]) @ ts)"
      using ts(4) by (simp add: m1 i1)
    also have "drop ?a (items ?d @ [t]) @ ts = drop ?a ((items ?d @ [t]) @ ts)"
      by (simp only: drop_append) simp
    also have "(items ?d @ [t]) @ ts = items ?d @ t # ts"
      by simp
    also have "drop (length (items (replay_memory s1)) + length ts - maxlen ?d)
            (drop ?a (items ?d @ t # ts))
        = drop (length (items (replay_memory s1)) + length ts - maxlen ?d + ?a) (items ?d @ t # ts)"
      by (rule drop_drop)
    also have "length (items (replay_memory s1)) + length ts - maxlen ?d + ?a
        = length (items ?d @ t # ts) - maxlen ?d"
      using Cons.prems(2) la by auto
    finally show ?thesis .
  qed
  with ts m1 rt fr show ?case
    by (intro exI [of _ "t # ts"]) simp
qed

text \<open>
  C7. The replay memory is a deque whose capacity is \<open>replay_memory_size\<close> (15000 by
  default) and it never holds more; it evicts the oldest first: of the transitions
  \<open>ts\<close> inserted into an empty memory, in this order, the memory holds the last
  \<open>capacity\<close> ones in this order, so after \<open>capacity + k\<close> insertions the \<open>k\<close> oldest
  are gone and the \<open>capacity - k\<close> most recent are still the last ones stored.
\<close>

theorem replay_memory_bounded_fifo:
  assumes "append_all frs s = Returned s'" and "items (replay_memory s) = []"
  shows "replay_memory (fresh_agent w vd a) = \<lparr>maxlen = arg_replay_memory_size a, items = []\<rparr> \<and>
         arg_replay_memory_size (default_args n) = 15000 \<and>
         maxlen (replay_memory s') = maxlen (replay_memory s) \<and>
         length (items (replay_memory s')) \<le> maxlen (replay_memory s) \<and>
         (\<exists>ts. length ts = length frs \<and> map reward ts = map snd frs \<and>
            items (replay_memory s') = drop (length ts - maxlen (replay_memory s)) ts \<and>
            (\<forall>k. length frs = maxlen (replay_memory s) + k \<longrightarrow>
               items (replay_memory s') = drop k ts \<and>
               length (items (replay_memory s')) = maxlen (replay_memory s) \<and>
               drop (length ts - (maxlen (replay_memory s) - k)) ts
                 = drop (maxlen (replay_memory s) - (maxlen (replay_memory s) - k))
                     (items (replay_memory s'))))"
proof -
  let ?c = "maxlen (replay_memory s)"
  from append_all_replay_memory [OF assms(1)] assms(2) obtain ts where
    ts: "map reward ts = map snd frs"
      "maxlen (replay_memory s') = ?c"
      "length (items (replay_memory s')) \<le> ?c"
      "items (replay_memory s') = drop (length ts - ?c) ts"
    by auto
  have l: "length ts = length frs"
    using ts(1) by (metis length_map)
  have k: "items (replay_memory s') = drop k ts \<and>
           length (items (replay_memory s')) = ?c \<and>
           drop (length ts - (?c - k)) ts = drop (?c - (?c - k)) (items (replay_memory s'))"
    if "length frs = ?c + k" for k
  proof -
    from that l have lk: "length ts = ?c + k" by simp
    then have d: "items (replay_memory s') = drop k ts" using ts(4) by simp
    have "drop (?c - (?c - k)) (drop k ts) = drop (?c - (?c - k) + k) ts"
      by (rule drop_drop)
    also have "?c - (?c - k) + k = length ts - (?c - k)"
      using lk by auto
    finally show ?thesis using d lk by simp
  qed
  have f: "replay_memory (fresh_agent w vd a) = \<lparr>maxlen = arg_replay_memory_size a, items = []\<rparr>"
    by (simp add: fresh_agent_def)
  have dflt: "arg_replay_memory_size (default_args n) = 15000"
    by (simp add: default_args_def)
  from ts l k have "\<exists>ts. length ts = length frs \<and> map reward ts = map snd frs \<and>
            items (replay_memory s') = drop (length ts - ?c) ts \<and>
            (\<forall>k. length frs = ?c + k \<longrightarrow>
               items (replay_memory s') = drop k ts \<and>
               length (items (replay_memory s')) = ?c \<and>
               drop (length ts - (?c - k)) ts = drop (?c - (?c - k)) (items (replay_memory s')))"
    by (intro exI [of _ ts]) blast
  with f dflt ts(2,3) show ?thesis by blast
qed

theorem replay_memory_bounded_fifo_witness:
  "items (replay_memory (build_frame_stack (pixel_frame 0)
      (fresh_agent (0::nat) () (scenario_args\<lparr>arg_replay_memory_size := 2\<rparr>)))) = [] \<and>
   (\<exists>s'. append_all [(pixel_frame 1, 1), (pixel_frame 2, 2), (pixel_frame 3, 3)]
            (build_frame_stack (pixel_frame 0)
               (fresh_agent (0::nat) () (scenario_args\<lparr>arg_replay_memory_size := 2\<rparr>)))
          = Returned s' \<and>
        maxlen (replay_memory s') = 2 \<and>
        map reward (items (replay_memory s')) = [2, 3])"
proof -
  let ?s = "build_frame_stack (pixel_frame 0)
      (fresh_agent (0::nat) () (scenario_args\<lparr>arg_replay_memory_size := 2\<rparr>))"
  let ?frs = "[(pixel_frame 1, 1::real), (pixel_frame 2, 2), (pixel_frame 3, 3)]"
  have e: "items (replay_memory ?s) = []"
    by (simp add: build_frame_stack_def fresh_agent_def)
  have c: "maxlen (replay_memory ?s) = 2"
    by (simp add: build_frame_stack_def fresh_agent_def scenario_args_def)
  have "\<exists>s'. append_all ?frs ?s = Returned s'"
    by (simp add: append_to_replay_memory_def update_frame_stack_def shift_in_def
        build_frame_stack_def stack_of_frame_def pixel_frame_def)
  then obtain s' where run: "append_all ?frs ?s = Returned s'" by blast
  note T = replay_memory_bounded_fifo
    [OF run e, where w = "0::nat" and vd = "()" and a = scenario_args and n = 4]
  from T c have m: "maxlen (replay_memory s') = 2" by simp
  from T obtain ts where
    ts: "map reward ts = map snd ?frs" and
    k: "\<forall>k. length ?frs = maxlen (replay_memory ?s) + k \<longrightarrow>
          items (replay_memory s') = drop k ts"
    by blast
  have "length ?frs = maxlen (replay_memory ?s) + 1" using c by simp
  with k have "items (replay_memory s') = drop 1 ts" by blast
  then have "map reward (items (replay_memory s')) = drop 1 (map reward ts)"
    by (simp add: drop_map)
  with ts have "map reward (items (replay_memory s')) = [2, 3]" by simp
  with e run m show ?thesis by (intro conjI exI [where x = s'])
qed














section \<open>Properties of saving and loading\<close>

lemma split_on_not_Nil: "split_on c xs \<noteq> []"
  by (induction xs) (auto split: list.splits)

lemma split_on_no_sep: "c \<notin> set xs \<Longrightarrow> split_on c xs = [xs]"
  by (induction xs) auto

lemma split_on_append: "split_on c (xs @ c # ys) = split_on c xs @ split_on c ys"
proof (induction xs)
  case Nil
  then show ?case by simp
next
  case (Cons x xs)
  obtain p ps where "split_on c xs = p # ps"
    using split_on_not_Nil [of c xs] by (cases "split_on c xs") auto
  with Cons show ?case by simp
qed

lemma digit_cases:
  "d < 10 \<Longrightarrow> d = 0 \<or> d = 1 \<or> d = 2 \<or> d = 3 \<or> d = 4 \<or> d = 5 \<or> d = 6 \<or> d = 7 \<or> d = 8 \<or> d = (9::nat)"
  by arith

lemma digit_val_digit_char: "d < 10 \<Longrightarrow> digit_val (digit_char d) = Some d"
  using digit_cases [of d] by (auto simp: digit_val_def digit_char_def)

lemma digit_char_plain:
  "d < 10 \<Longrightarrow> digit_char d \<noteq> CHR ''_'' \<and> digit_char d \<noteq> CHR ''-'' \<and>
     digit_char d \<noteq> CHR ''+'' \<and> \<not> is_space (digit_char d)"
  using digit_cases [of d] by (auto simp: digit_char_def is_space_def)

lemma str_nat_plain: "plain_digits (str_nat n)"
proof (induction n rule: str_nat.induct)
  case (1 n)
  show ?case
  proof (cases "n < 10")
    case True
    then show ?thesis by (subst str_nat.simps) (auto simp: plain_digits_def)
  next
    case False
    with 1 have "plain_digits (str_nat (n div 10))" by simp
    moreover have "\<exists>d<10. digit_char (n mod 10) = digit_char d"
      by (intro exI [of _ "n mod 10"]) simp
    ultimately show ?thesis using False
      by (subst str_nat.simps) (auto simp: plain_digits_def)
  qed
qed

lemma digits_value_append:
  "digits_value (xs @ ys) acc =
     (case digits_value xs acc of None \<Rightarrow> None | Some a \<Rightarrow> digits_value ys a)"
  by (induction xs arbitrary: acc) (auto split: option.splits)

lemma digits_value_str_nat: "digits_value (str_nat n) 0 = Some n"
proof (induction n rule: str_nat.induct)
  case (1 n)
  show ?case
  proof (cases "n < 10")
    case True
    then show ?thesis by (subst str_nat.simps) (simp add: digit_val_digit_char)
  next
    case False
    with 1 have "digits_value (str_nat (n div 10)) 0 = Some (n div 10)" by simp
    then show ?thesis using False
      by (subst str_nat.simps) (simp add: digits_value_append digit_val_digit_char)
  qed
qed

lemma parse_digits_str_nat: "parse_digits (str_nat n) = Some n"
  using str_nat_plain [of n] by (simp add: parse_digits_def plain_digits_def digits_value_str_nat)

lemma strip_id:
  assumes "xs \<noteq> []" and "\<not> is_space (hd xs)" and "\<not> is_space (last xs)"
  shows "strip xs = xs"
proof -
  from assms have "dropWhile is_space xs = xs" by (cases xs) auto
  moreover from assms have "dropWhile is_space (rev xs) = rev xs"
    by (cases "rev xs") (auto simp: last_rev hd_rev)
  ultimately show ?thesis by (simp add: strip_def)
qed

lemma plain_digits_ends:
  assumes "plain_digits s"
  shows "\<not> is_space (hd s)" and "\<not> is_space (last s)" and "hd s \<noteq> CHR ''-''"
    and "hd s \<noteq> CHR ''+''" and "CHR ''_'' \<notin> set s"
proof -
  from assms have ne: "s \<noteq> []" by (simp add: plain_digits_def)
  have all: "c \<noteq> CHR ''_'' \<and> c \<noteq> CHR ''-'' \<and> c \<noteq> CHR ''+'' \<and> \<not> is_space c"
    if "c \<in> set s" for c
  proof -
    from assms that obtain d where "d < 10" "c = digit_char d"
      by (auto simp: plain_digits_def)
    with digit_char_plain [of d] show ?thesis by simp
  qed
  from ne have "hd s \<in> set s" "last s \<in> set s" by simp_all
  with all show "\<not> is_space (hd s)" "\<not> is_space (last s)" "hd s \<noteq> CHR ''-''" "hd s \<noteq> CHR ''+''"
    by blast+
  from all show "CHR ''_'' \<notin> set s" by blast
qed

lemma int_of_str_str_int: "int_of_str (str_int i) = Some i"
proof (cases "i < 0")
  case True
  let ?d = "str_nat (nat (- i))"
  note P = plain_digits_ends [OF str_nat_plain [of "nat (- i)"]]
  have ne: "?d \<noteq> []" using str_nat_plain [of "nat (- i)"] by (simp add: plain_digits_def)
  have "\<not> is_space (CHR ''-'')" by (simp add: is_space_def)
  moreover have "last (CHR ''-'' # ?d) = last ?d" using ne by simp
  ultimately have "strip (CHR ''-'' # ?d) = CHR ''-'' # ?d"
    using P(2) by (intro strip_id) simp_all
  with True show ?thesis
    by (simp add: int_of_str_def str_int_def parse_digits_str_nat)
next
  case False
  let ?d = "str_nat (nat i)"
  note P = plain_digits_ends [OF str_nat_plain [of "nat i"]]
  have ne: "?d \<noteq> []" using str_nat_plain [of "nat i"] by (simp add: plain_digits_def)
  then obtain c cs where d: "?d = c # cs" by (cases ?d) auto
  have s: "strip ?d = ?d" using ne P(1,2) by (intro strip_id)
  from P(3,4) d have c: "c \<noteq> CHR ''-''" "c \<noteq> CHR ''+''" by simp_all
  have "parse_digits (c # cs) = Some (nat i)" using parse_digits_str_nat [of "nat i"] d by simp
  with False s d c show ?thesis
    by (simp add: int_of_str_def str_int_def)
qed

lemma str_int_no_sep: "CHR ''_'' \<notin> set (str_int i)"
  using plain_digits_ends(5) [OF str_nat_plain] by (simp add: str_int_def)

lemma unpack_star3_append:
  "unpack_star3 (xs @ [a, b, c]) = Some (xs, a, b, c)"
  by (simp add: unpack_star3_def nth_append)

lemma checkpoint_path_fields:
  assumes "CHR ''_'' \<notin> set fl"
  shows "\<exists>args. unpack_star3 (split_on CHR ''_'' (prefix @ ''_dqn_'' @ str_int n @ ''_'' @ fl @ ''_.h5''))
           = Some (args, str_int n, fl, ''.h5'')"
proof -
  have "prefix @ ''_dqn_'' @ str_int n @ ''_'' @ fl @ ''_.h5''
      = (prefix @ ''_dqn'') @ CHR ''_'' # (str_int n @ CHR ''_'' # (fl @ CHR ''_'' # ''.h5''))"
    by simp
  then have "split_on CHR ''_'' (prefix @ ''_dqn_'' @ str_int n @ ''_'' @ fl @ ''_.h5'')
      = split_on CHR ''_'' (prefix @ ''_dqn'') @ [str_int n, fl, ''.h5'']"
    using assms str_int_no_sep [of n]
    by (simp only: split_on_append) (simp add: split_on_no_sep)
  then show ?thesis by (simp only: unpack_star3_append) simp
qed


text \<open>
  C3. A checkpoint saved by one agent state and loaded (into any agent state) from the
  path \<open>save_model_weights\<close> wrote restores the saver's \<open>current_step\<close>; with
  \<open>override_epsilon\<close> it restores the saver's epsilon, and without it the loader's
  epsilon stays as it was. What is assumed of Python's \<open>str\<close> and \<open>float\<close> on the saved
  epsilon: the text holds no underscore, and \<open>float\<close> reads it back.
\<close>

theorem checkpoint_round_trip:
  assumes "CHR ''_'' \<notin> set (float_str (epsilon (epsilon_greedy_q_policy s)))"
    and "override_epsilon \<longrightarrow>
           float_of_str (float_str (epsilon (epsilon_greedy_q_policy s)))
             = Some (epsilon (epsilon_greedy_q_policy s))"
  shows "\<exists>t'. load_model_weights float_of_str
                 (save_model_weights float_str file_path_prefix True s files)
                 (save_file_path float_str file_path_prefix True s) override_epsilon t
               = Returned t' \<and>
              current_step t' = current_step s \<and>
              weights (model t') = weights (model s) \<and>
              epsilon (epsilon_greedy_q_policy t')
                = (if override_epsilon then epsilon (epsilon_greedy_q_policy s)
                   else epsilon (epsilon_greedy_q_policy t)) \<and>
              previous_epsilon t'
                = (if override_epsilon then Some (epsilon (epsilon_greedy_q_policy s))
                   else previous_epsilon t)"
proof -
  let ?fl = "float_str (epsilon (epsilon_greedy_q_policy s))"
  let ?p = "save_file_path float_str file_path_prefix True s"
  have p: "?p = file_path_prefix @ ''_dqn_'' @ str_int (current_step s) @ ''_'' @ ?fl @ ''_.h5''"
    by (simp add: save_file_path_def)
  from checkpoint_path_fields [OF assms(1), of file_path_prefix "current_step s"] p
  obtain args where
    u: "unpack_star3 (split_on CHR ''_'' ?p) = Some (args, str_int (current_step s), ?fl, ''.h5'')"
    by auto
  have f: "save_model_weights float_str file_path_prefix True s files ?p = Some (weights (model s))"
    by (simp add: save_model_weights_def)
  show ?thesis
  proof (cases override_epsilon)
    case True
    with assms(2) have "float_of_str ?fl = Some (epsilon (epsilon_greedy_q_policy s))" by simp
    with True u f show ?thesis
      by (simp add: load_model_weights_def int_of_str_str_int)
  next
    case False
    with u f show ?thesis
      by (simp add: load_model_weights_def int_of_str_str_int)
  qed
qed

theorem checkpoint_round_trip_witness:
  "CHR ''_'' \<notin> set ((\<lambda>x. if x = 1 then ''1.0'' else ''0.5'')
      (epsilon (epsilon_greedy_q_policy (scenario_start\<lparr>current_step := 42\<rparr>)))) \<and>
   (\<lambda>x. if x = ''1.0'' then Some 1 else None)
      ((\<lambda>x. if x = 1 then ''1.0'' else ''0.5'')
         (epsilon (epsilon_greedy_q_policy (scenario_start\<lparr>current_step := 42\<rparr>))))
     = Some (epsilon (epsilon_greedy_q_policy (scenario_start\<lparr>current_step := 42\<rparr>))) \<and>
   save_file_path (\<lambda>x. if x = 1 then ''1.0'' else ''0.5'') ''model'' True
      (scenario_start\<lparr>current_step := 42\<rparr>) = ''model_dqn_42_1.0_.h5'' \<and>
   (\<exists>t'. load_model_weights (\<lambda>x. if x = ''1.0'' then Some 1 else None)
            (save_model_weights (\<lambda>x. if x = 1 then ''1.0'' else ''0.5'') ''model'' True
               (scenario_start\<lparr>current_step := 42\<rparr>) Map.empty)
            (save_file_path (\<lambda>x. if x = 1 then ''1.0'' else ''0.5'') ''model'' True
               (scenario_start\<lparr>current_step := 42\<rparr>))
            True (enter_run_mode scenario_start)
          = Returned t' \<and>
          current_step t' = 42 \<and> epsilon (epsilon_greedy_q_policy t') = 1)"
proof -
  let ?fs = "\<lambda>x::real. if x = 1 then ''1.0'' else ''0.5''"
  let ?fo = "\<lambda>x. if x = ''1.0'' then Some (1::real) else None"
  let ?s = "scenario_start\<lparr>current_step := 42\<rparr>"
  have e: "epsilon (epsilon_greedy_q_policy ?s) = 1"
    by (simp add: scenario_start_def build_frame_stack_def fresh_agent_def scenario_args_def
        default_args_def)
  have e0: "epsilon (epsilon_greedy_q_policy scenario_start) = 1"
    by (simp add: scenario_start_def build_frame_stack_def fresh_agent_def scenario_args_def
        default_args_def)
  have h1: "CHR ''_'' \<notin> set (?fs (epsilon (epsilon_greedy_q_policy ?s)))"
    by (simp add: e0)
  have h2: "?fo (?fs (epsilon (epsilon_greedy_q_policy ?s))) = Some (epsilon (epsilon_greedy_q_policy ?s))"
    by (simp add: e0)
  then have h2': "True \<longrightarrow> ?fo (?fs (epsilon (epsilon_greedy_q_policy ?s)))
      = Some (epsilon (epsilon_greedy_q_policy ?s))" by simp
  have p: "save_file_path ?fs ''model'' True ?s = ''model_dqn_42_1.0_.h5''"
    by (simp add: save_file_path_def e0 str_int_def str_nat.simps digit_char_def)
  from checkpoint_round_trip [of ?fs ?s True ?fo, OF h1 h2',
      where file_path_prefix = "''model''" and files = Map.empty
        and t = "enter_run_mode scenario_start"]
  obtain t' where
    "load_model_weights ?fo (save_model_weights ?fs ''model'' True ?s Map.empty)
       (save_file_path ?fs ''model'' True ?s) True (enter_run_mode scenario_start) = Returned t'"
    "current_step t' = current_step ?s"
    "epsilon (epsilon_greedy_q_policy t') = epsilon (epsilon_greedy_q_policy ?s)"
    by auto
  with e e0 have "\<exists>t'. load_model_weights ?fo (save_model_weights ?fs ''model'' True ?s Map.empty)
       (save_file_path ?fs ''model'' True ?s) True (enter_run_mode scenario_start) = Returned t' \<and>
       current_step t' = 42 \<and> epsilon (epsilon_greedy_q_policy t') = 1"
    by (intro exI [where x = t']) simp
  with h1 h2 p show ?thesis by (intro conjI)
qed

text \<open>
  What \<open>int\<close> skips and what it does not, on step fields a path can hold.
\<close>

lemma int_of_str_whitespace:
  "int_of_str [CHR 0xA0, CHR ''1'', CHR ''2''] = Some 12 \<and>
   int_of_str [CHR 0x85, CHR ''1'', CHR ''2''] = Some 12 \<and>
   int_of_str [CHR 0x09, CHR ''1'', CHR ''2'', CHR '' ''] = Some 12 \<and>
   int_of_str [CHR 0x1F, CHR ''1'', CHR ''2''] = None \<and>
   int_of_str [CHR 0x1C, CHR ''1'', CHR ''2''] = None \<and>
   int_of_str ''+12'' = Some 12 \<and> int_of_str ''-12'' = Some (- 12) \<and>
   int_of_str ''1 2'' = None \<and> int_of_str [] = None \<and> int_of_str ''abc'' = None"
  by (simp add: int_of_str_def strip_def is_space_def parse_digits_def digit_val_def)

text \<open>
  C5 as stated fails twice. A path whose step field is not an integer makes the load
  raise ValueError only after the weights of the file have replaced the network's and
  the model is recompiled, and a path whose step field parses but whose epsilon field
  does not (with \<open>override_epsilon\<close>) raises after \<open>current_step\<close> is overwritten: partial
  state is applied. And a path that does not follow the pattern need not fail at all:
  without \<open>override_epsilon\<close>, \<open>notes_12_abc_junk.txt\<close> loads, with \<open>current_step\<close> 12.
\<close>

theorem malformed_name_partial_state_counterexample:
  "load_model_weights (\<lambda>x. None) [''m_dqn_abc_0.5_.h5'' \<mapsto> 7] ''m_dqn_abc_0.5_.h5'' False
       scenario_start
     = Raised ValueError
         (scenario_start\<lparr>model := \<lparr>weights = 7, loss = ''mse'', learning_rate = 1 / 100000\<rparr>\<rparr>) \<and>
   weights (model scenario_start) = 0 \<and>
   load_model_weights (\<lambda>x. None) [''m_dqn_12_abc_.h5'' \<mapsto> 7] ''m_dqn_12_abc_.h5'' True
       scenario_start
     = Raised ValueError
         (scenario_start\<lparr>model := \<lparr>weights = 7, loss = ''mse'', learning_rate = 1 / 100000\<rparr>,
                         current_step := 12\<rparr>) \<and>
   current_step scenario_start = 0 \<and>
   load_model_weights (\<lambda>x. None) [''notes_12_abc_junk.txt'' \<mapsto> 7] ''notes_12_abc_junk.txt'' False
       scenario_start
     = Returned
         (scenario_start\<lparr>model := \<lparr>weights = 7, loss = ''mse'', learning_rate = 1 / 100000\<rparr>,
                         current_step := 12\<rparr>)"
  by (simp add: load_model_weights_def unpack_star3_def int_of_str_def strip_def is_space_def
      parse_digits_def digit_val_def scenario_start_def build_frame_stack_def fresh_agent_def
      scenario_args_def default_args_def)

text \<open>
  C5, amended. A path with no weight file raises OSError and leaves the agent as it
  was. For a path with a weight file the load fails, with ValueError, in exactly three
  cases: the split of the path on \<open>_\<close> has fewer than three fields; or the third field
  from the end is not an integer; or \<open>override_epsilon\<close> is set and the second field from
  the end is not a float. In the first two the agent is left with \<open>current_step\<close>,
  epsilon and \<open>previous_epsilon\<close> unchanged but with the file's weights loaded and the
  model recompiled; in the third, in addition, with \<open>current_step\<close> set to the parsed
  step. In every other case the load returns, whatever the other fields hold: it sets
  \<open>current_step\<close>, and with \<open>override_epsilon\<close> epsilon and \<open>previous_epsilon\<close>.
\<close>

theorem load_malformed_name:
  "(files file_path = None \<longrightarrow>
      load_model_weights float_of_str files file_path override_epsilon s = Raised OSError s) \<and>
   (files file_path = Some w \<and> unpack_star3 (split_on CHR ''_'' file_path) = None \<longrightarrow>
      load_model_weights float_of_str files file_path override_epsilon s
        = Raised ValueError
            (s\<lparr>model := (model s)\<lparr>weights := w, loss := ''mse'',
                                   learning_rate := model_learning_rate s\<rparr>\<rparr>)) \<and>
   (files file_path = Some w \<and>
    unpack_star3 (split_on CHR ''_'' file_path) = Some (args, st, ep, ex) \<longrightarrow>
      load_model_weights float_of_str files file_path override_epsilon s
        = (case int_of_str st of
             None \<Rightarrow>
               Raised ValueError
                 (s\<lparr>model := (model s)\<lparr>weights := w, loss := ''mse'',
                                        learning_rate := model_learning_rate s\<rparr>\<rparr>)
           | Some k \<Rightarrow>
               if override_epsilon
               then (case float_of_str ep of
                       None \<Rightarrow>
                         Raised ValueError
                           (s\<lparr>model := (model s)\<lparr>weights := w, loss := ''mse'',
                                                  learning_rate := model_learning_rate s\<rparr>,
                              current_step := k\<rparr>)
                     | Some e \<Rightarrow>
                         Returned
                           (s\<lparr>model := (model s)\<lparr>weights := w, loss := ''mse'',
                                                  learning_rate := model_learning_rate s\<rparr>,
                              current_step := k, previous_epsilon := Some e,
                              epsilon_greedy_q_policy :=
                                (epsilon_greedy_q_policy s)\<lparr>epsilon := e\<rparr>\<rparr>))
               else Returned
                      (s\<lparr>model := (model s)\<lparr>weights := w, loss := ''mse'',
                                             learning_rate := model_learning_rate s\<rparr>,
                         current_step := k\<rparr>)))"
  by (auto simp: load_model_weights_def Let_def split: option.splits)

theorem load_malformed_name_witness:
  "load_model_weights (\<lambda>x. None) Map.empty ''m_dqn_abc_0.5_.h5'' True scenario_start
     = Raised OSError scenario_start \<and>
   unpack_star3 (split_on CHR ''_'' ''model.h5'') = None \<and>
   load_model_weights (\<lambda>x. None) [''model.h5'' \<mapsto> 7] ''model.h5'' True scenario_start
     = Raised ValueError
         (scenario_start\<lparr>model := (model scenario_start)\<lparr>weights := 7, loss := ''mse'',
              learning_rate := model_learning_rate scenario_start\<rparr>\<rparr>) \<and>
   unpack_star3 (split_on CHR ''_'' ''m_dqn_abc_0.5_.h5'')
     = Some ([''m'', ''dqn''], ''abc'', ''0.5'', ''.h5'') \<and>
   load_model_weights (\<lambda>x. None) [''m_dqn_abc_0.5_.h5'' \<mapsto> 7] ''m_dqn_abc_0.5_.h5'' True
       scenario_start
     = Raised ValueError
         (scenario_start\<lparr>model := (model scenario_start)\<lparr>weights := 7, loss := ''mse'',
              learning_rate := model_learning_rate scenario_start\<rparr>\<rparr>) \<and>
   unpack_star3 (split_on CHR ''_'' ''notes_12_abc_junk.txt'')
     = Some ([''notes''], ''12'', ''abc'', ''junk.txt'') \<and>
   load_model_weights (\<lambda>x. None) [''notes_12_abc_junk.txt'' \<mapsto> 7] ''notes_12_abc_junk.txt''
       True scenario_start
     = Raised ValueError
         (scenario_start\<lparr>model := (model scenario_start)\<lparr>weights := 7, loss := ''mse'',
              learning_rate := model_learning_rate scenario_start\<rparr>, current_step := 12\<rparr>) \<and>
   load_model_weights (\<lambda>x. None) [''notes_12_abc_junk.txt'' \<mapsto> 7] ''notes_12_abc_junk.txt''
       False scenario_start
     = Returned
         (scenario_start\<lparr>model := (model scenario_start)\<lparr>weights := 7, loss := ''mse'',
              learning_rate := model_learning_rate scenario_start\<rparr>, current_step := 12\<rparr>)"
proof -
  have i: "int_of_str ''abc'' = None" "int_of_str ''12'' = Some 12"
    by (simp_all add: int_of_str_def strip_def is_space_def parse_digits_def digit_val_def)
  have u1: "unpack_star3 (split_on CHR ''_'' ''model.h5'') = None"
    by (simp add: unpack_star3_def)
  have u2: "unpack_star3 (split_on CHR ''_'' ''m_dqn_abc_0.5_.h5'')
     = Some ([''m'', ''dqn''], ''abc'', ''0.5'', ''.h5'')"
    by (simp add: unpack_star3_def)
  have u3: "unpack_star3 (split_on CHR ''_'' ''notes_12_abc_junk.txt'')
     = Some ([''notes''], ''12'', ''abc'', ''junk.txt'')"
    by (simp add: unpack_star3_def)
  have a: "load_model_weights (\<lambda>x. None) Map.empty ''m_dqn_abc_0.5_.h5'' True scenario_start
     = Raised OSError scenario_start"
    using load_malformed_name
      [where files = "Map.empty" and file_path = "''m_dqn_abc_0.5_.h5''"
         and float_of_str = "\<lambda>x. None" and override_epsilon = True and s = scenario_start,
       THEN conjunct1]
    by simp
  have b: "load_model_weights (\<lambda>x. None) [''model.h5'' \<mapsto> 7] ''model.h5'' True scenario_start
     = Raised ValueError
         (scenario_start\<lparr>model := (model scenario_start)\<lparr>weights := 7, loss := ''mse'',
              learning_rate := model_learning_rate scenario_start\<rparr>\<rparr>)"
    using load_malformed_name
      [where files = "[''model.h5'' \<mapsto> 7]" and file_path = "''model.h5''" and w = "7::nat"
         and float_of_str = "\<lambda>x. None" and override_epsilon = True and s = scenario_start,
       THEN conjunct2, THEN conjunct1] u1
    by simp
  have c: "load_model_weights (\<lambda>x. None) [''m_dqn_abc_0.5_.h5'' \<mapsto> 7] ''m_dqn_abc_0.5_.h5'' True
       scenario_start
     = Raised ValueError
         (scenario_start\<lparr>model := (model scenario_start)\<lparr>weights := 7, loss := ''mse'',
              learning_rate := model_learning_rate scenario_start\<rparr>\<rparr>)"
    using load_malformed_name
      [where files = "[''m_dqn_abc_0.5_.h5'' \<mapsto> 7]" and file_path = "''m_dqn_abc_0.5_.h5''"
         and w = "7::nat" and args = "[''m'', ''dqn'']" and st = "''abc''" and ep = "''0.5''"
         and ex = "''.h5''"
         and float_of_str = "\<lambda>x. None" and override_epsilon = True and s = scenario_start,
       THEN conjunct2, THEN conjunct2] u2 i
    by simp
  have d: "load_model_weights (\<lambda>x. None) [''notes_12_abc_junk.txt'' \<mapsto> 7] ''notes_12_abc_junk.txt''
       True scenario_start
     = Raised ValueError
         (scenario_start\<lparr>model := (model scenario_start)\<lparr>weights := 7, loss := ''mse'',
              learning_rate := model_learning_rate scenario_start\<rparr>, current_step := 12\<rparr>)"
    using load_malformed_name
      [where files = "[''notes_12_abc_junk.txt'' \<mapsto> 7]" and file_path = "''notes_12_abc_junk.txt''"
         and w = "7::nat" and args = "[''notes'']" and st = "''12''" and ep = "''abc''"
         and ex = "''junk.txt''"
         and float_of_str = "\<lambda>x. None" and override_epsilon = True and s = scenario_start,
       THEN conjunct2, THEN conjunct2] u3 i
    by simp
  have e: "load_model_weights (\<lambda>x. None) [''notes_12_abc_junk.txt'' \<mapsto> 7] ''notes_12_abc_junk.txt''
       False scenario_start
     = Returned
         (scenario_start\<lparr>model := (model scenario_start)\<lparr>weights := 7, loss := ''mse'',
              learning_rate := model_learning_rate scenario_start\<rparr>, current_step := 12\<rparr>)"
    using load_malformed_name
      [where files = "[''notes_12_abc_junk.txt'' \<mapsto> 7]" and file_path = "''notes_12_abc_junk.txt''"
         and w = "7::nat" and args = "[''notes'']" and st = "''12''" and ep = "''abc''"
         and ex = "''junk.txt''"
         and float_of_str = "\<lambda>x. None" and override_epsilon = False and s = scenario_start,
       THEN conjunct2, THEN conjunct2] u3 i
    by simp
  from a u1 b u2 c u3 d e show ?thesis by (intro conjI)
qed

section \<open>Properties of training\<close>

text \<open>
  The six flashback indices are drawn from \<open>range(batch_size)\<close>: with a batch size
  below six \<open>random.sample\<close> raises ValueError, and no training step can follow.
\<close>

lemma train_on_mini_batch_small_batch:
  "real_of_int (current_observe_step s) > observe_steps s \<Longrightarrow>
   batch_size s \<le> length (items (replay_memory s)) \<Longrightarrow> batch_size s < 6 \<Longrightarrow>
   frame_stack s = Some fs \<Longrightarrow>
   train_on_mini_batch predict train_on_batch store_image_data to_uint8 rnd s
     = Raised ValueError s"
  by (simp add: train_on_mini_batch_def random_sample_def)

text \<open>
  C2. The scenario's first half holds: after five steps (five appends, the observe
  counter at 5) \<open>train_on_mini_batch\<close> returns the agent as it is, loss 0. Its second
  half fails on the code: after the sixth step the gate is open, the memory holds six
  transitions, and \<open>train_on_mini_batch\<close> raises ValueError where it draws its six
  flashback indices from \<open>range(2)\<close>; no training step is made, the weights and the
  reported loss stay 0 (one step of this network would report the loss 1).
\<close>

theorem scenario_sixth_step_raises:
  "(case scenario_steps 5 of
      Returned s \<Rightarrow>
        current_observe_step s = 5 \<and> length (items (replay_memory s)) = 5 \<and>
        train_on_mini_batch counter_predict counter_train (\<lambda>img shape label vd. vd) (\<lambda>x. 0)
          (\<lambda>i. 0) s = Returned s \<and>
        model_loss s = 0
    | Raised e s \<Rightarrow> False) \<and>
   (case scenario_steps 6 of
      Returned s \<Rightarrow>
        current_observe_step s = 6 \<and> observe_steps s = 5 \<and> batch_size s = 2 \<and>
        length (items (replay_memory s)) = 6 \<and>
        train_on_mini_batch counter_predict counter_train (\<lambda>img shape label vd. vd) (\<lambda>x. 0)
          (\<lambda>i. 0) s = Raised ValueError s \<and>
        model_loss s = 0 \<and> weights (model s) = 0
    | Raised e s \<Rightarrow> False) \<and>
   snd (counter_train \<lparr>weights = 0, loss = ''logcosh'', learning_rate = 1 / 100000\<rparr> [] []) = 1"
  by code_simp

lemma sample_from_length:
  "k \<le> length pool \<Longrightarrow> length (sample_from rnd pool k) = k"
proof (induction k arbitrary: rnd pool)
  case 0
  then show ?case by simp
next
  case (Suc k)
  from Suc.prems have "0 < length pool" by arith
  then have "rnd 0 mod length pool < length pool" by (rule mod_less_divisor)
  with Suc.prems have "k \<le> length (take (rnd 0 mod length pool) pool @
      drop (Suc (rnd 0 mod length pool)) pool)"
    by simp
  from Suc.IH [OF this] show ?case by (simp add: Let_def)
qed

lemma sample_from_subset:
  "k \<le> length pool \<Longrightarrow> set (sample_from rnd pool k) \<subseteq> set pool"
proof (induction k arbitrary: rnd pool)
  case 0
  then show ?case by simp
next
  case (Suc k)
  let ?j = "rnd 0 mod length pool"
  let ?rest = "take ?j pool @ drop (Suc ?j) pool"
  from Suc.prems have "0 < length pool" by arith
  then have j: "?j < length pool" by (rule mod_less_divisor)
  with Suc.prems have "k \<le> length ?rest" by simp
  from Suc.IH [OF this] have "set (sample_from (\<lambda>i. rnd (Suc i)) ?rest k) \<subseteq> set ?rest" .
  moreover have "set ?rest \<subseteq> set pool"
    using set_take_subset [of ?j pool] set_drop_subset [of "Suc ?j" pool] by auto
  moreover from j have "pool ! ?j \<in> set pool" by simp
  ultimately show ?case by (auto simp: Let_def)
qed

lemma np_max_Max: "xs \<noteq> [] \<Longrightarrow> np_max xs = Inr (Max (set xs))"
  by (cases xs) (simp_all add: np_max_def Max.set_eq_fold [symmetric])

lemma target_row_valid:
  assumes "length (predict m (prior_stack t)) = n"
    and "length (predict m (resulting_stack t)) = n"
    and "action_index t = Some a" and "0 \<le> a" and "a < int n"
  shows "target_row predict m g n t =
     Inr ((predict m (prior_stack t))
        [nat a := (if is_terminal t then reward t
                   else reward t + g * Max (set (predict m (resulting_stack t))))])"
proof -
  from assms(2,4,5) have "predict m (resulting_stack t) \<noteq> []" by auto
  then have "np_max (predict m (resulting_stack t)) = Inr (Max (set (predict m (resulting_stack t))))"
    by (rule np_max_Max)
  with assms show ?thesis
    by (simp add: target_row_def Let_def bc_def set_column_def)
qed

lemma loop_body_targets:
  assumes "loop_body predict store_image_data to_uint8 s fs fl mb i (inputs, targets, vd)
             = Inr (inputs', targets', vd')"
  shows "\<exists>row. target_row predict (model s) (gamma s) (action_count s) (mb ! i) = Inr row \<and>
           targets' = targets[i := row]"
  using assms by (auto simp: loop_body_def Let_def split: sum.splits)

lemma batch_loop_targets:
  "batch_loop (loop_body predict store_image_data to_uint8 s fs fl mb) idxs (inputs, targets, vd)
     = Inr (inputs', targets', vd') \<Longrightarrow>
   length targets' = length targets \<and>
   (\<forall>i. i \<notin> set idxs \<longrightarrow> targets' ! i = targets ! i) \<and>
   (\<forall>i \<in> set idxs. i < length targets \<longrightarrow>
      target_row predict (model s) (gamma s) (action_count s) (mb ! i) = Inr (targets' ! i))"
proof (induction idxs arbitrary: inputs targets vd)
  case Nil
  then show ?case by simp
next
  case (Cons j rest)
  let ?body = "loop_body predict store_image_data to_uint8 s fs fl mb"
  from Cons.prems obtain acc where
    b: "?body j (inputs, targets, vd) = Inr acc" and
    r: "batch_loop ?body rest acc = Inr (inputs', targets', vd')"
    by (auto split: sum.splits)
  obtain inputs1 targets1 vd1 where acc: "acc = (inputs1, targets1, vd1)" by (cases acc)
  from loop_body_targets [OF b [unfolded acc]] obtain row where
    row: "target_row predict (model s) (gamma s) (action_count s) (mb ! j) = Inr row"
    and t1: "targets1 = targets[j := row]"
    by blast
  note IH = Cons.IH [OF r [unfolded acc]]
  from IH t1 have len: "length targets' = length targets" by simp
  have keep: "targets' ! i = targets ! i" if "i \<notin> set (j # rest)" for i
  proof -
    from that have "i \<notin> set rest" "i \<noteq> j" by auto
    with IH t1 show ?thesis by simp
  qed
  have filled: "target_row predict (model s) (gamma s) (action_count s) (mb ! i) = Inr (targets' ! i)"
    if "i \<in> set (j # rest)" "i < length targets" for i
  proof (cases "i \<in> set rest")
    case True
    with IH t1 that(2) show ?thesis by simp
  next
    case False
    with that(1) have ij: "i = j" by simp
    from False IH have "targets' ! i = targets1 ! i" by blast
    with t1 ij that(2) have "targets' ! i = row" by simp
    with row ij show ?thesis by simp
  qed
  from len keep filled show ?case by blast
qed

lemma train_on_mini_batch_Returned:
  assumes "real_of_int (current_observe_step s) > observe_steps s"
    and "train_on_mini_batch predict train_on_batch store_image_data to_uint8 rnd s = Returned s'"
  shows "\<exists>fs fl mini_batch inputs targets vd.
           frame_stack s = Some fs \<and>
           random_sample rnd (items (replay_memory s)) (batch_size s) = Inr mini_batch \<and>
           batch_arrays predict store_image_data to_uint8 s fs fl mini_batch
             = Inr (inputs, targets, vd) \<and>
           train_on_batch (model s) inputs targets = (model s', model_loss s')"
  using assms
  by (auto simp: train_on_mini_batch_def split: sum.splits option.splits prod.splits) blast

text \<open>
  C1. When \<open>train_on_mini_batch\<close> trains, the targets it hands to \<open>train_on_batch\<close> have
  one row per sampled transition: the row is the network's prediction for the prior
  stack, except in the column of the taken action, which holds the reward when the
  transition is terminal and \<open>reward + gamma * max(predict(resulting_stack))\<close> when it is
  not; \<open>gamma\<close> is 0.99 by default. (The network's output has \<open>action_count\<close> entries, and
  the stored action indices lie in \<open>[0, action_count)\<close>.)
\<close>

theorem bellman_targets:
  assumes "real_of_int (current_observe_step s) > observe_steps s"
    and "train_on_mini_batch predict train_on_batch store_image_data to_uint8 rnd s = Returned s'"
    and "\<forall>x. length (predict (model s) x) = action_count s"
    and "\<forall>t \<in> set (items (replay_memory s)).
           \<exists>a. action_index t = Some a \<and> 0 \<le> a \<and> a < int (action_count s)"
  shows "gamma (fresh_agent w vd (default_args n)) = 99 / 100 \<and>
         (\<exists>mini_batch inputs targets.
            random_sample rnd (items (replay_memory s)) (batch_size s) = Inr mini_batch \<and>
            set mini_batch \<subseteq> set (items (replay_memory s)) \<and>
            length mini_batch = batch_size s \<and> length targets = batch_size s \<and>
            train_on_batch (model s) inputs targets = (model s', model_loss s') \<and>
            (\<forall>i < batch_size s. \<forall>a. action_index (mini_batch ! i) = Some a \<longrightarrow>
               length (targets ! i) = action_count s \<and>
               (\<forall>j < action_count s.
                  targets ! i ! j =
                    (if j = nat a
                     then (if is_terminal (mini_batch ! i) then reward (mini_batch ! i)
                           else reward (mini_batch ! i) +
                                gamma s * Max (set (predict (model s)
                                                      (resulting_stack (mini_batch ! i)))))
                     else predict (model s) (prior_stack (mini_batch ! i)) ! j))))"
proof -
  from train_on_mini_batch_Returned [OF assms(1,2)] obtain fs fl mb inputs targets vd' where
    smp: "random_sample rnd (items (replay_memory s)) (batch_size s) = Inr mb" and
    arr: "batch_arrays predict store_image_data to_uint8 s fs fl mb = Inr (inputs, targets, vd')" and
    trn: "train_on_batch (model s) inputs targets = (model s', model_loss s')"
    by blast
  from smp have k: "batch_size s \<le> length (items (replay_memory s))"
    and mb: "mb = sample_from rnd (items (replay_memory s)) (batch_size s)"
    by (auto simp: random_sample_def split: if_splits)
  from k mb have lmb: "length mb = batch_size s" by (simp add: sample_from_length)
  from k mb have sub: "set mb \<subseteq> set (items (replay_memory s))"
    by (simp add: sample_from_subset)
  note L = batch_loop_targets [OF arr [unfolded batch_arrays_def]]
  from L have lt: "length targets = batch_size s" by simp
  have rows: "length (targets ! i) = action_count s \<and>
       (\<forall>j < action_count s.
          targets ! i ! j =
            (if j = nat a
             then (if is_terminal (mb ! i) then reward (mb ! i)
                   else reward (mb ! i) +
                        gamma s * Max (set (predict (model s) (resulting_stack (mb ! i)))))
             else predict (model s) (prior_stack (mb ! i)) ! j))"
    if i: "i < batch_size s" and a: "action_index (mb ! i) = Some a" for i a
  proof -
    from i lmb have "mb ! i \<in> set mb" by simp
    with sub have "mb ! i \<in> set (items (replay_memory s))" by blast
    with assms(4) obtain a' where
      "action_index (mb ! i) = Some a'" "0 \<le> a'" "a' < int (action_count s)"
      by blast
    with a have a0: "0 \<le> a" and an: "a < int (action_count s)" by simp_all
    from i lmb have "i \<in> set [0 ..< length mb]" by simp
    with L i have "target_row predict (model s) (gamma s) (action_count s) (mb ! i)
        = Inr (targets ! i)"
      by simp
    moreover from assms(3) have
      p1: "length (predict (model s) (prior_stack (mb ! i))) = action_count s" and
      p2: "length (predict (model s) (resulting_stack (mb ! i))) = action_count s"
      by simp_all
    note target_row_valid [where predict = predict and m = "model s" and t = "mb ! i"
        and g = "gamma s", OF p1 p2 a a0 an]
    ultimately have "targets ! i = (predict (model s) (prior_stack (mb ! i)))
        [nat a := (if is_terminal (mb ! i) then reward (mb ! i)
                   else reward (mb ! i) +
                        gamma s * Max (set (predict (model s) (resulting_stack (mb ! i)))))]"
      by simp
    with assms(3) show ?thesis by (simp add: nth_list_update)
  qed
  have g: "gamma (fresh_agent w vd (default_args n)) = 99 / 100"
    by (simp add: fresh_agent_def default_args_def)
  from smp sub lmb lt trn rows have
    "\<exists>mini_batch inputs targets.
            random_sample rnd (items (replay_memory s)) (batch_size s) = Inr mini_batch \<and>
            set mini_batch \<subseteq> set (items (replay_memory s)) \<and>
            length mini_batch = batch_size s \<and> length targets = batch_size s \<and>
            train_on_batch (model s) inputs targets = (model s', model_loss s') \<and>
            (\<forall>i < batch_size s. \<forall>a. action_index (mini_batch ! i) = Some a \<longrightarrow>
               length (targets ! i) = action_count s \<and>
               (\<forall>j < action_count s.
                  targets ! i ! j =
                    (if j = nat a
                     then (if is_terminal (mini_batch ! i) then reward (mini_batch ! i)
                           else reward (mini_batch ! i) +
                                gamma s * Max (set (predict (model s)
                                                      (resulting_stack (mini_batch ! i)))))
                     else predict (model s) (prior_stack (mini_batch ! i)) ! j)))"
    by (intro exI [where x = mb] exI [where x = inputs] exI [where x = targets]) blast
  with g show ?thesis by (rule conjI)
qed

lemma is_returned_obtain: "is_returned r \<Longrightarrow> \<exists>s. r = Returned s"
  by (cases r) (simp_all add: is_returned_def)

lemma training_example_facts:
  "case training_example of
     Returned s \<Rightarrow>
       current_observe_step s = 6 \<and> observe_steps s = 5 \<and> action_count s = 4 \<and>
       gamma s = 99 / 100 \<and> batch_size s = 6 \<and> weights (model s) = 1 \<and>
       length (items (replay_memory s)) = 6 \<and>
       list_all (\<lambda>t. action_index t = Some 1 \<and> reward t = 1 \<and> \<not> is_terminal t)
         (items (replay_memory s))
   | Raised e s \<Rightarrow> False"
  by code_simp

lemma training_example_trains:
  "is_returned
     (and_then training_example
        (train_on_mini_batch counter_predict counter_train (\<lambda>img shape label vd. vd)
           (\<lambda>x. 0) (\<lambda>i. 0)))"
  by code_simp

theorem bellman_targets_witness:
  "\<exists>s s' mini_batch inputs targets.
      training_example = Returned s \<and>
      real_of_int (current_observe_step s) > observe_steps s \<and>
      train_on_mini_batch counter_predict counter_train (\<lambda>img shape label vd. vd) (\<lambda>x. 0)
        (\<lambda>i. 0) s = Returned s' \<and>
      counter_train (model s) inputs targets = (model s', model_loss s') \<and>
      length targets = 6 \<and>
      targets ! 0 ! 0 = 1 \<and> targets ! 0 ! 1 = 1 + 99 / 100 * 1"
proof -
  from training_example_facts obtain s where
    s: "training_example = Returned s" and
    c: "current_observe_step s = 6" "observe_steps s = 5" "action_count s = 4"
      "gamma s = 99 / 100" "batch_size s = 6" "weights (model s) = 1" and
    ts: "\<forall>t \<in> set (items (replay_memory s)).
          action_index t = Some 1 \<and> reward t = 1 \<and> \<not> is_terminal t"
    by (cases training_example) (auto simp: list_all_iff split: outcome.splits)
  from is_returned_obtain [OF training_example_trains] obtain s' where
    "and_then training_example
        (train_on_mini_batch counter_predict counter_train (\<lambda>img shape label vd. vd)
           (\<lambda>x. 0) (\<lambda>i. 0)) = Returned s'"
    by blast
  then have
    run: "train_on_mini_batch counter_predict counter_train (\<lambda>img shape label vd. vd) (\<lambda>x. 0)
        (\<lambda>i. 0) s = Returned s'"
    by (simp add: and_then_def s)
  from c have gate: "real_of_int (current_observe_step s) > observe_steps s" by simp
  from c have out: "\<forall>x. length (counter_predict (model s) x) = action_count s"
    by (simp add: counter_predict_def)
  from ts c have valid: "\<forall>t \<in> set (items (replay_memory s)).
           \<exists>a. action_index t = Some a \<and> 0 \<le> a \<and> a < int (action_count s)"
    by simp
  from bellman_targets [OF gate run out valid, where w = "0::nat" and vd = "()" and n = 4]
  obtain mb inputs targets where
    sub: "set mb \<subseteq> set (items (replay_memory s))" and
    len: "length mb = batch_size s" "length targets = batch_size s" and
    trn: "counter_train (model s) inputs targets = (model s', model_loss s')" and
    rows: "\<forall>i < batch_size s. \<forall>a. action_index (mb ! i) = Some a \<longrightarrow>
               length (targets ! i) = action_count s \<and>
               (\<forall>j < action_count s.
                  targets ! i ! j =
                    (if j = nat a
                     then (if is_terminal (mb ! i) then reward (mb ! i)
                           else reward (mb ! i) +
                                gamma s * Max (set (counter_predict (model s)
                                                      (resulting_stack (mb ! i)))))
                     else counter_predict (model s) (prior_stack (mb ! i)) ! j))"
    by blast
  from len c have "mb ! 0 \<in> set mb" by simp
  with sub ts have t0: "action_index (mb ! 0) = Some 1" "reward (mb ! 0) = 1"
    "\<not> is_terminal (mb ! 0)"
    by blast+
  from rows c t0(1) have cols: "\<forall>j < 4.
      targets ! 0 ! j =
        (if j = nat 1
         then (if is_terminal (mb ! 0) then reward (mb ! 0)
               else reward (mb ! 0) +
                    gamma s * Max (set (counter_predict (model s) (resulting_stack (mb ! 0)))))
         else counter_predict (model s) (prior_stack (mb ! 0)) ! j)"
    by simp
  have mx: "Max (set (counter_predict (model s) (resulting_stack (mb ! 0)))) = 1"
    using c by (simp add: counter_predict_def)
  from cols have "targets ! 0 ! 0 = counter_predict (model s) (prior_stack (mb ! 0)) ! 0"
    by simp
  then have col0: "targets ! 0 ! 0 = 1" using c by (simp add: counter_predict_def)
  from cols have "targets ! 0 ! 1 =
      (if is_terminal (mb ! 0) then reward (mb ! 0)
       else reward (mb ! 0) +
            gamma s * Max (set (counter_predict (model s) (resulting_stack (mb ! 0)))))"
    by simp
  with t0 mx c have col1: "targets ! 0 ! 1 = 1 + 99 / 100 * 1" by simp
  from len c have l6: "length targets = 6" by simp
  from s gate run trn l6 col0 col1 show ?thesis by blast
qed

end
